theory Spec2Isabelle
  imports Main "HOL-Library.Word"
begin

section \<open>Data model\<close>

text \<open>
  The repository holds two variants of the TEALScript contract \<open>AbstractedAccount\<close>:
  the ARC58 variant (\<open>src/unnamed/part_000\<close>, methods prefixed \<open>arc58_\<close>) and the
  factory variant (\<open>src/contracts/abstracted_account.algo.ts\<close>). Names of the factory
  variant that clash with the ARC58 variant carry the suffix \<open>2\<close>.

  An address is a 32-byte public key, an application is a 64-bit application ID, a
  timestamp is a \<open>uint64\<close>; byte strings are character lists.
\<close>

type_synonym address = "256 word"
type_synonym uint64 = "64 word"
type_synonym application = "64 word"
type_synonym bytes = string

definition zeroAddress :: address where
  "zeroAddress = 0"

text \<open>
  A contract method aborts the whole atomic group when an \<open>assert\<close>, a \<open>verifyTxn\<close>, a read of
  a missing box or an inner transaction fails. The source gives these aborts no names; the
  model labels each abort site with the error kind the specification uses for it.
\<close>

datatype error =
    Unauthorized          \<comment> \<open>a check of the caller against the admin (or the creation identities) failed\<close>
  | InvalidAdmin          \<comment> \<open>the admin would equal the controlled address\<close>
  | NotAuthorized         \<comment> \<open>no plugin entry authorises the rekey\<close>
  | AliasExists           \<comment> \<open>the named plugin box already exists\<close>
  | NotFound              \<comment> \<open>the value of a box that does not exist was read\<close>
  | InvariantViolation    \<comment> \<open>the last transaction of the group neither rekeys back nor verifies\<close>
  | GroupIndexOutOfRange  \<comment> \<open>\<open>txnGroup[length - 1]\<close> on a group without transactions\<close>
  | ControlTransferFailed \<comment> \<open>the inner payment was not authorised by the ledger\<close>
  | ApplicationNotFound   \<comment> \<open>the address of an application that does not exist was read\<close>

datatype txn_type = Pay | Keyreg | Acfg | Axfer | Afrz | Appl

text \<open>The fields of a transaction of the group that the contract reads.\<close>

record transaction =
  typeEnum :: txn_type
  sender :: address
  rekeyTo :: address
  applicationID :: application
  applicationArgs :: "bytes list"

text \<open>
  The execution context of one call: \<open>this.app\<close>, the address of an application
  (\<open>Application.address\<close>, a hash of the ID), the applications that exist on the ledger, the
  ABI selector of a method signature (\<open>method(...)\<close>, a hash of the signature),
  \<open>globals.latestTimestamp\<close>, \<open>this.txn\<close> and \<open>this.txnGroup\<close>. The two hashes are parameters of
  the model. The address of the running application (\<open>this.app.address\<close>) can always be read;
  the read of the address of another application (\<open>plugin.address\<close>) aborts when no such
  application exists.
\<close>

record env =
  app :: application
  appAddress :: "application \<Rightarrow> address"
  appExists :: "application \<Rightarrow> bool"
  methodSelector :: "string \<Rightarrow> bytes"
  latestTimestamp :: uint64
  txn :: transaction
  txnGroup :: "transaction list"

record pluginsKey =
  application :: application
  allowedCaller :: address

text \<open>
  The state of the ARC58 variant: its two global state keys, its two box maps, and the part
  of the ledger it reads and writes, the auth address of every account
  (\<open>Account.authAddr\<close>, the zero address for an account that was never rekeyed).
\<close>

record state =
  admin :: address
  controlledAddress :: address
  plugins :: "pluginsKey \<rightharpoonup> uint64"
  namedPlugins :: "bytes \<rightharpoonup> pluginsKey"
  ledgerAuthAddr :: "address \<Rightarrow> address"

text \<open>
  Every failure aborts the whole group, so the state after a call is the returned state when
  the call succeeds and the state before it when it fails.
\<close>

definition stateAfter :: "'s \<Rightarrow> error + 's \<Rightarrow> 's" where
  "stateAfter st r = (case r of Inl _ \<Rightarrow> st | Inr st' \<Rightarrow> st')"

section \<open>The control-transfer primitive\<close>

text \<open>
  Modelled from the spec: \<open>sendPayment\<close>, the inner payment transaction of the AVM, is not
  code of this repository. Section 6 of the specification describes it as the
  control-transfer primitive: given a source identity and a target identity it reassigns
  the control-holder of the source to the target, and it fails if the caller (the running
  application) is not the current control-holder of the source. An account whose auth
  address is the zero address is controlled by itself (section 3). The amount, the receiver
  and the note of the payment play no part in the model.
\<close>

definition controlHolder :: "state \<Rightarrow> address \<Rightarrow> address" where
  "controlHolder st a = (if ledgerAuthAddr st a = zeroAddress then a else ledgerAuthAddr st a)"

definition sendPayment :: "env \<Rightarrow> state \<Rightarrow> address \<Rightarrow> address \<Rightarrow> address \<Rightarrow> error + state" where
  "sendPayment e st src receiver rekey =
     (if controlHolder st src = appAddress e (app e)
      then Inr (st\<lparr>ledgerAuthAddr := (ledgerAuthAddr st)(src := rekey)\<rparr>)
      else Inl ControlTransferFailed)"

section \<open>The ARC58 variant\<close>

definition getAuthAddr :: "env \<Rightarrow> state \<Rightarrow> address" where
  "getAuthAddr e st =
     (if controlledAddress st = appAddress e (app e) then zeroAddress else appAddress e (app e))"

text \<open>
  \<open>verifyAppCallTxn(lastTxn, {applicationID, applicationArgs: {0: ...}})\<close> asserts that the
  transaction is an application call, that it calls this application, and that its first
  argument is the selector; reading the first argument of a call without arguments fails.
\<close>

definition verifyRekeyToAbstractedAccount :: "env \<Rightarrow> state \<Rightarrow> error + unit" where
  "verifyRekeyToAbstractedAccount e st =
     (if txnGroup e = [] then Inl GroupIndexOutOfRange
      else
        let lastTxn = last (txnGroup e) in
        if sender lastTxn \<noteq> controlledAddress st \<or> rekeyTo lastTxn \<noteq> getAuthAddr e st
        then
          (if typeEnum lastTxn = Appl \<and> applicationID lastTxn = app e \<and>
              (case applicationArgs lastTxn of
                 [] \<Rightarrow> False
               | arg0 # _ \<Rightarrow> arg0 = methodSelector e ''arc58_verifyAuthAddr()void'')
           then Inr ()
           else Inl InvariantViolation)
        else Inr ())"

definition createApplication :: "env \<Rightarrow> state \<Rightarrow> address \<Rightarrow> address \<Rightarrow> error + state" where
  "createApplication e st controlledAddr adminAddr =
     (if typeEnum (txn e) = Appl \<and> sender (txn e) \<in> set [controlledAddr, adminAddr]
      then
        (if adminAddr \<noteq> controlledAddr
         then Inr (st\<lparr>admin := adminAddr,
                      controlledAddress :=
                        (if controlledAddr = zeroAddress then appAddress e (app e) else controlledAddr)\<rparr>)
         else Inl InvalidAdmin)
      else Inl Unauthorized)"

definition arc58_verifyAuthAddr :: "env \<Rightarrow> state \<Rightarrow> error + state" where
  "arc58_verifyAuthAddr e st =
     (if ledgerAuthAddr st (controlledAddress st) = getAuthAddr e st
      then Inr st
      else Inl InvariantViolation)"

definition arc58_rekeyTo :: "env \<Rightarrow> state \<Rightarrow> address \<Rightarrow> bool \<Rightarrow> error + state" where
  "arc58_rekeyTo e st addr flash =
     (if typeEnum (txn e) = Appl \<and> sender (txn e) = admin st
      then
        (case sendPayment e st (controlledAddress st) addr addr of
           Inl err \<Rightarrow> Inl err
         | Inr st' \<Rightarrow>
             if flash
             then (case verifyRekeyToAbstractedAccount e st' of
                     Inl err \<Rightarrow> Inl err
                   | Inr _ \<Rightarrow> Inr st')
             else Inr st')
      else Inl Unauthorized)"

definition arc58_rekeyToPlugin :: "env \<Rightarrow> state \<Rightarrow> application \<Rightarrow> error + state" where
  "arc58_rekeyToPlugin e st plugin =
     (let globalKey = \<lparr>application = plugin, allowedCaller = zeroAddress\<rparr> in
      case
        (if (case plugins st globalKey of
               None \<Rightarrow> True
             | Some v \<Rightarrow> v < latestTimestamp e)
         then
           (let key = \<lparr>application = plugin, allowedCaller = sender (txn e)\<rparr> in
            case plugins st key of
              None \<Rightarrow> Inl NotAuthorized
            | Some v \<Rightarrow> if v > latestTimestamp e then Inr () else Inl NotAuthorized)
         else Inr ())
      of
        Inl err \<Rightarrow> Inl err
      | Inr _ \<Rightarrow>
          if appExists e plugin
          then
            (case sendPayment e st (controlledAddress st) (controlledAddress st) (appAddress e plugin) of
               Inl err \<Rightarrow> Inl err
             | Inr st' \<Rightarrow>
                 (case verifyRekeyToAbstractedAccount e st' of
                    Inl err \<Rightarrow> Inl err
                  | Inr _ \<Rightarrow> Inr st'))
          else Inl ApplicationNotFound)"

definition arc58_rekeyToNamedPlugin :: "env \<Rightarrow> state \<Rightarrow> bytes \<Rightarrow> error + state" where
  "arc58_rekeyToNamedPlugin e st name =
     (case namedPlugins st name of
        None \<Rightarrow> Inl NotFound
      | Some k \<Rightarrow> arc58_rekeyToPlugin e st (application k))"

definition arc58_changeAdmin :: "env \<Rightarrow> state \<Rightarrow> address \<Rightarrow> error + state" where
  "arc58_changeAdmin e st newAdmin =
     (if sender (txn e) = admin st
      then
        (if newAdmin \<noteq> controlledAddress st
         then Inr (st\<lparr>admin := newAdmin\<rparr>)
         else Inl InvalidAdmin)
      else Inl Unauthorized)"

definition arc58_addPlugin :: "env \<Rightarrow> state \<Rightarrow> application \<Rightarrow> address \<Rightarrow> uint64 \<Rightarrow> error + state" where
  "arc58_addPlugin e st a caller end_ts =
     (if sender (txn e) = admin st
      then
        (let key = \<lparr>application = a, allowedCaller = caller\<rparr>
         in Inr (st\<lparr>plugins := (plugins st)(key \<mapsto> end_ts)\<rparr>))
      else Inl Unauthorized)"

definition arc58_removePlugin :: "env \<Rightarrow> state \<Rightarrow> application \<Rightarrow> address \<Rightarrow> error + state" where
  "arc58_removePlugin e st a caller =
     (if sender (txn e) = admin st
      then
        (let key = \<lparr>application = a, allowedCaller = caller\<rparr>
         in Inr (st\<lparr>plugins := (plugins st)(key := None)\<rparr>))
      else Inl Unauthorized)"

definition arc58_addNamedPlugin ::
  "env \<Rightarrow> state \<Rightarrow> bytes \<Rightarrow> application \<Rightarrow> address \<Rightarrow> uint64 \<Rightarrow> error + state" where
  "arc58_addNamedPlugin e st name a caller end_ts =
     (if sender (txn e) = admin st
      then
        (case namedPlugins st name of
           Some _ \<Rightarrow> Inl AliasExists
         | None \<Rightarrow>
             (let key = \<lparr>application = a, allowedCaller = caller\<rparr>
              in Inr (st\<lparr>namedPlugins := (namedPlugins st)(name \<mapsto> key),
                           plugins := (plugins st)(key \<mapsto> end_ts)\<rparr>)))
      else Inl Unauthorized)"

text \<open>
  In \<open>arc58_removeNamedPlugin\<close> the constant \<open>app\<close> is bound to \<open>this.namedPlugins(name).value\<close>, a
  value of a tuple type held in a box. The compiled program keeps such a constant as a
  reference to the box and reads the box where the constant is used, that is at
  \<open>this.plugins(app).delete()\<close>, after \<open>this.namedPlugins(name).delete()\<close> has run. Deleting a box
  that does not exist does nothing; reading one aborts.
\<close>

definition arc58_removeNamedPlugin :: "env \<Rightarrow> state \<Rightarrow> bytes \<Rightarrow> error + state" where
  "arc58_removeNamedPlugin e st name =
     (if sender (txn e) = admin st
      then
        (let st1 = st\<lparr>namedPlugins := (namedPlugins st)(name := None)\<rparr> in
         case namedPlugins st1 name of
           None \<Rightarrow> Inl NotFound
         | Some k \<Rightarrow> Inr (st1\<lparr>plugins := (plugins st1)(k := None)\<rparr>))
      else Inl Unauthorized)"

section \<open>The factory variant\<close>

text \<open>
  The state of the factory variant: the global state keys \<open>admin\<close>, \<open>address\<close> and
  \<open>authAddr\<close> and the box maps \<open>plugins\<close> and \<open>factories\<close>, whose values are empty, so
  that each is the set of its keys. \<open>addFactory\<close> and \<open>removeFactory\<close> compare the sender with
  \<open>this.eoa.value\<close>, and the class declares no \<open>eoa\<close>: the source does not say what these two
  methods do, and they are not modelled.
\<close>

record state2 =
  admin2 :: address
  plugins2 :: "application set"
  address2 :: address
  authAddr2 :: address
  factories2 :: "application set"

definition createApplication2 :: "env \<Rightarrow> state2 \<Rightarrow> address \<Rightarrow> address \<Rightarrow> error + state2" where
  "createApplication2 e st addr adminAddr =
     (if typeEnum (txn e) = Appl \<and> sender (txn e) \<in> set [addr, adminAddr]
      then
        (if adminAddr \<noteq> addr
         then
           (let a = (if addr = zeroAddress then appAddress e (app e) else addr) in
            Inr (st\<lparr>admin2 := adminAddr,
                    address2 := a,
                    authAddr2 := (if a = appAddress e (app e) then zeroAddress else appAddress e (app e))\<rparr>))
         else Inl InvalidAdmin)
      else Inl Unauthorized)"

definition changeAdmin :: "env \<Rightarrow> state2 \<Rightarrow> address \<Rightarrow> error + state2" where
  "changeAdmin e st newAdmin =
     (if sender (txn e) = admin2 st
      then Inr (st\<lparr>admin2 := newAdmin\<rparr>)
      else Inl Unauthorized)"

definition addPlugin :: "env \<Rightarrow> state2 \<Rightarrow> application \<Rightarrow> error + state2" where
  "addPlugin e st a =
     (if sender (txn e) = admin2 st
      then Inr (st\<lparr>plugins2 := insert a (plugins2 st)\<rparr>)
      else Inl Unauthorized)"

definition removePlugin :: "env \<Rightarrow> state2 \<Rightarrow> application \<Rightarrow> error + state2" where
  "removePlugin e st a =
     (if sender (txn e) = admin2 st
      then Inr (st\<lparr>plugins2 := plugins2 st - {a}\<rparr>)
      else Inl Unauthorized)"

section \<open>A concrete scenario\<close>

text \<open>
  The scenario of section 8 of the specification, used to run the definitions: application
  1 (address 1001) controls account 20 for admin 10; applications 1 and 7 exist; plugin 7
  has a wildcard entry that
  expires at 100 and an entry for caller 5 that expires at 200, the latter under the name
  \<open>swap\<close>. A group is the call itself followed by a call of \<open>arc58_verifyAuthAddr\<close>.
\<close>

definition ex_appAddress :: "application \<Rightarrow> address" where
  "ex_appAddress a = (if a = 1 then 1001 else if a = 7 then 1007 else 1999)"

definition ex_appExists :: "application \<Rightarrow> bool" where
  "ex_appExists a = (a = 1 \<or> a = 7)"

definition ex_selector :: "string \<Rightarrow> bytes" where
  "ex_selector sig = sig"

definition ex_call :: "address \<Rightarrow> transaction" where
  "ex_call caller =
     \<lparr>typeEnum = Appl, sender = caller, rekeyTo = 0, applicationID = 1, applicationArgs = []\<rparr>"

definition ex_verifyCall :: "transaction" where
  "ex_verifyCall =
     \<lparr>typeEnum = Appl, sender = 5, rekeyTo = 0, applicationID = 1,
      applicationArgs = [ex_selector ''arc58_verifyAuthAddr()void'']\<rparr>"

definition ex_env :: "address \<Rightarrow> uint64 \<Rightarrow> transaction list \<Rightarrow> env" where
  "ex_env caller now rest =
     \<lparr>app = 1, appAddress = ex_appAddress, appExists = ex_appExists,
      methodSelector = ex_selector,
      latestTimestamp = now, txn = ex_call caller, txnGroup = ex_call caller # rest\<rparr>"

definition ex_state :: "state" where
  "ex_state =
     \<lparr>admin = 10, controlledAddress = 20,
      plugins = [\<lparr>application = 7, allowedCaller = 0\<rparr> \<mapsto> 100,
                 \<lparr>application = 7, allowedCaller = 5\<rparr> \<mapsto> 200],
      namedPlugins = [''swap'' \<mapsto> \<lparr>application = 7, allowedCaller = 5\<rparr>],
      ledgerAuthAddr = (\<lambda>_. 0)(20 := 1001)\<rparr>"

definition ex_state2 :: "state2" where
  "ex_state2 =
     \<lparr>admin2 = 10, plugins2 = {}, address2 = 20, authAddr2 = 1001, factories2 = {}\<rparr>"

section \<open>Properties\<close>

lemma verifyRekeyToAbstractedAccount_ledger:
  "verifyRekeyToAbstractedAccount e (st\<lparr>ledgerAuthAddr := l\<rparr>) = verifyRekeyToAbstractedAccount e st"
  by (simp add: verifyRekeyToAbstractedAccount_def getAuthAddr_def)

lemma sendPayment_ok:
  "controlHolder st src = appAddress e (app e) \<Longrightarrow>
   sendPayment e st src receiver rekey = Inr (st\<lparr>ledgerAuthAddr := (ledgerAuthAddr st)(src := rekey)\<rparr>)"
  by (simp add: sendPayment_def)

lemma sendPayment_Inr:
  "sendPayment e st src receiver rekey = Inr st' \<Longrightarrow>
   controlHolder st src = appAddress e (app e) \<and>
   st' = st\<lparr>ledgerAuthAddr := (ledgerAuthAddr st)(src := rekey)\<rparr>"
  by (simp add: sendPayment_def split: if_splits)

lemma verifyRekeyToAbstractedAccount_cases:
  "txnGroup e \<noteq> [] \<Longrightarrow>
   verifyRekeyToAbstractedAccount e st = Inr () \<or>
   verifyRekeyToAbstractedAccount e st = Inl InvariantViolation"
  by (auto simp: verifyRekeyToAbstractedAccount_def Let_def)

subsection \<open>The invariant verifier\<close>

text \<open>
  Claim C1. In a group that holds at least one transaction (every group of the AVM holds
  the running call), \<open>verifyRekeyToAbstractedAccount\<close> succeeds if and only if the last
  transaction of the group is sent by the controlled address and rekeys to the expected
  auth address (the zero address when the controlled address is the address of this
  application, the address of this application otherwise), or is an application call of
  this application whose first argument is the selector of \<open>arc58_verifyAuthAddr\<close>. In
  every other case it fails with \<open>InvariantViolation\<close>.
\<close>

theorem verifyRekeyToAbstractedAccount_iff:
  assumes "txnGroup e \<noteq> []"
  shows "(verifyRekeyToAbstractedAccount e st = Inr () \<longleftrightarrow>
            (sender (last (txnGroup e)) = controlledAddress st \<and>
             rekeyTo (last (txnGroup e)) =
               (if controlledAddress st = appAddress e (app e) then zeroAddress
                else appAddress e (app e)))
          \<or> (typeEnum (last (txnGroup e)) = Appl \<and>
             applicationID (last (txnGroup e)) = app e \<and>
             (\<exists>rest. applicationArgs (last (txnGroup e)) =
                       methodSelector e ''arc58_verifyAuthAddr()void'' # rest)))
       \<and> (verifyRekeyToAbstractedAccount e st \<noteq> Inr () \<longrightarrow>
            verifyRekeyToAbstractedAccount e st = Inl InvariantViolation)"
  using assms
  by (auto simp: verifyRekeyToAbstractedAccount_def getAuthAddr_def Let_def split: list.splits)

theorem verifyRekeyToAbstractedAccount_iff_witness:
  "txnGroup (ex_env 5 150 [ex_verifyCall]) \<noteq> [] \<and>
   verifyRekeyToAbstractedAccount (ex_env 5 150 [ex_verifyCall]) ex_state = Inr () \<and>
   verifyRekeyToAbstractedAccount (ex_env 5 150 []) ex_state = Inl InvariantViolation \<and>
   verifyRekeyToAbstractedAccount
     (ex_env 5 150 [\<lparr>typeEnum = Pay, sender = 20, rekeyTo = 1001, applicationID = 0,
                     applicationArgs = []\<rparr>]) ex_state = Inr ()"
proof -
  have g1: "txnGroup (ex_env 5 150 [ex_verifyCall]) \<noteq> []"
    and g2: "txnGroup (ex_env 5 150 []) \<noteq> []"
    and g3: "txnGroup (ex_env 5 150 [\<lparr>typeEnum = Pay, sender = 20, rekeyTo = 1001,
               applicationID = 0, applicationArgs = []\<rparr>]) \<noteq> []"
    by (simp_all add: ex_env_def)
  show ?thesis
    using verifyRekeyToAbstractedAccount_iff [OF g1, of ex_state]
      verifyRekeyToAbstractedAccount_iff [OF g2, of ex_state]
      verifyRekeyToAbstractedAccount_iff [OF g3, of ex_state]
    by (simp add: ex_env_def ex_state_def ex_call_def ex_verifyCall_def ex_appAddress_def
        ex_selector_def zeroAddress_def)
qed

subsection \<open>Rekeying to a plugin\<close>

text \<open>
  When the plugin exists, the application controls the account and the group passes the
  verifier, the rekey to a plugin succeeds exactly when the wildcard entry exists and has not
  expired before the current time, or the entry of the caller exists and expires after the
  current time. The wildcard entry is compared with \<open><\<close>, the entry of the caller with \<open>>\<close>.
  The rekey to an application that does not exist never succeeds.
\<close>

lemma arc58_rekeyToPlugin_succeeds_iff:
  assumes "appExists e plugin"
    and "controlHolder st (controlledAddress st) = appAddress e (app e)"
    and "verifyRekeyToAbstractedAccount e st = Inr ()"
  shows "arc58_rekeyToPlugin e st plugin =
           Inr (st\<lparr>ledgerAuthAddr := (ledgerAuthAddr st)(controlledAddress st := appAddress e plugin)\<rparr>)
         \<longleftrightarrow>
           (\<exists>v. plugins st \<lparr>application = plugin, allowedCaller = zeroAddress\<rparr> = Some v \<and>
                latestTimestamp e \<le> v) \<or>
           (\<exists>v. plugins st \<lparr>application = plugin, allowedCaller = sender (txn e)\<rparr> = Some v \<and>
                latestTimestamp e < v)"
  using assms
  by (auto simp: arc58_rekeyToPlugin_def sendPayment_ok verifyRekeyToAbstractedAccount_ledger
      Let_def split: option.splits)

lemma arc58_rekeyToPlugin_no_application:
  "\<not> appExists e plugin \<Longrightarrow> isl (arc58_rekeyToPlugin e st plugin)"
  by (simp add: arc58_rekeyToPlugin_def Let_def split: option.splits sum.splits)

text \<open>
  Claim C2 says that \<open>arc58_rekeyToPlugin\<close> succeeds if and only if a wildcard entry or an
  entry of the caller expires strictly after the current time. The code lets a wildcard entry
  through at the very time of its expiry: in the scenario at time 100, caller 6 (who has no
  entry of its own) rekeys the account to plugin 7 through the wildcard entry that expires at
  100, although no entry for plugin 7 that applies to caller 6 expires after 100.
\<close>

theorem arc58_rekeyToPlugin_wildcard_at_expiry:
  "arc58_rekeyToPlugin (ex_env 6 100 [ex_verifyCall]) ex_state 7 =
     Inr (ex_state\<lparr>ledgerAuthAddr := (ledgerAuthAddr ex_state)(20 := 1007)\<rparr>) \<and>
   \<not> (\<exists>k v. plugins ex_state k = Some v \<and> application k = 7 \<and>
          (allowedCaller k = zeroAddress \<or> allowedCaller k = 6) \<and>
          latestTimestamp (ex_env 6 100 [ex_verifyCall]) < v)"
proof -
  have "arc58_rekeyToPlugin (ex_env 6 100 [ex_verifyCall]) ex_state 7 =
     Inr (ex_state\<lparr>ledgerAuthAddr := (ledgerAuthAddr ex_state)(20 := 1007)\<rparr>)"
    by (simp add: arc58_rekeyToPlugin_def sendPayment_def controlHolder_def
        verifyRekeyToAbstractedAccount_def getAuthAddr_def ex_env_def ex_state_def ex_call_def
        ex_verifyCall_def ex_appAddress_def ex_appExists_def ex_selector_def zeroAddress_def)
  moreover have "\<not> (\<exists>k v. plugins ex_state k = Some v \<and> application k = 7 \<and>
          (allowedCaller k = zeroAddress \<or> allowedCaller k = 6) \<and>
          latestTimestamp (ex_env 6 100 [ex_verifyCall]) < v)"
    by (auto simp: ex_state_def ex_env_def zeroAddress_def split: if_splits)
  ultimately show ?thesis by blast
qed

text \<open>
  Claim C3. \<open>arc58_rekeyToPlugin\<close> resolves the wildcard entry first and the entry of the caller
  second. When the plugin exists, the application controls the account and the group passes
  the verifier: a wildcard entry that expires after the current time makes the rekey succeed
  whatever the entry of the caller is; and when the wildcard entry is absent or has expired,
  an entry of the caller that expires after the current time makes the rekey succeed. The
  fall-through is a check: when the wildcard entry is absent or expired before the current
  time and the caller has no entry that expires after the current time, the rekey fails with
  \<open>NotAuthorized\<close>, and no state changes. The witness is the scenario of the specification:
  wildcard expiry 100, caller expiry 200; at time 150 caller 5 succeeds through its own
  entry and caller 6, who has none, is refused; at time 50 caller 6 succeeds through the
  wildcard entry.
\<close>

theorem arc58_rekeyToPlugin_precedence:
  assumes "appExists e plugin"
    and "controlHolder st (controlledAddress st) = appAddress e (app e)"
    and "verifyRekeyToAbstractedAccount e st = Inr ()"
  shows "((\<exists>v. plugins st \<lparr>application = plugin, allowedCaller = zeroAddress\<rparr> = Some v \<and>
              latestTimestamp e < v) \<longrightarrow>
          arc58_rekeyToPlugin e st plugin =
            Inr (st\<lparr>ledgerAuthAddr := (ledgerAuthAddr st)(controlledAddress st := appAddress e plugin)\<rparr>))
       \<and> ((plugins st \<lparr>application = plugin, allowedCaller = zeroAddress\<rparr> = None \<or>
            (\<exists>v. plugins st \<lparr>application = plugin, allowedCaller = zeroAddress\<rparr> = Some v \<and>
                 v \<le> latestTimestamp e)) \<and>
           (\<exists>v. plugins st \<lparr>application = plugin, allowedCaller = sender (txn e)\<rparr> = Some v \<and>
                latestTimestamp e < v) \<longrightarrow>
          arc58_rekeyToPlugin e st plugin =
            Inr (st\<lparr>ledgerAuthAddr := (ledgerAuthAddr st)(controlledAddress st := appAddress e plugin)\<rparr>))
       \<and> ((plugins st \<lparr>application = plugin, allowedCaller = zeroAddress\<rparr> = None \<or>
            (\<exists>v. plugins st \<lparr>application = plugin, allowedCaller = zeroAddress\<rparr> = Some v \<and>
                 v < latestTimestamp e)) \<and>
           (plugins st \<lparr>application = plugin, allowedCaller = sender (txn e)\<rparr> = None \<or>
            (\<exists>v. plugins st \<lparr>application = plugin, allowedCaller = sender (txn e)\<rparr> = Some v \<and>
                 v \<le> latestTimestamp e)) \<longrightarrow>
          arc58_rekeyToPlugin e st plugin = Inl NotAuthorized \<and>
          stateAfter st (arc58_rekeyToPlugin e st plugin) = st)"
proof (intro conjI impI)
  assume "\<exists>v. plugins st \<lparr>application = plugin, allowedCaller = zeroAddress\<rparr> = Some v \<and>
              latestTimestamp e < v"
  then show "arc58_rekeyToPlugin e st plugin =
      Inr (st\<lparr>ledgerAuthAddr := (ledgerAuthAddr st)(controlledAddress st := appAddress e plugin)\<rparr>)"
    using assms
    by (auto simp: arc58_rekeyToPlugin_def sendPayment_ok verifyRekeyToAbstractedAccount_ledger
        Let_def split: option.splits)
next
  assume "(plugins st \<lparr>application = plugin, allowedCaller = zeroAddress\<rparr> = None \<or>
            (\<exists>v. plugins st \<lparr>application = plugin, allowedCaller = zeroAddress\<rparr> = Some v \<and>
                 v \<le> latestTimestamp e)) \<and>
           (\<exists>v. plugins st \<lparr>application = plugin, allowedCaller = sender (txn e)\<rparr> = Some v \<and>
                latestTimestamp e < v)"
  then show "arc58_rekeyToPlugin e st plugin =
      Inr (st\<lparr>ledgerAuthAddr := (ledgerAuthAddr st)(controlledAddress st := appAddress e plugin)\<rparr>)"
    using assms
    by (auto simp: arc58_rekeyToPlugin_def sendPayment_ok verifyRekeyToAbstractedAccount_ledger
        Let_def split: option.splits)
next
  assume refused:
    "(plugins st \<lparr>application = plugin, allowedCaller = zeroAddress\<rparr> = None \<or>
            (\<exists>v. plugins st \<lparr>application = plugin, allowedCaller = zeroAddress\<rparr> = Some v \<and>
                 v < latestTimestamp e)) \<and>
           (plugins st \<lparr>application = plugin, allowedCaller = sender (txn e)\<rparr> = None \<or>
            (\<exists>v. plugins st \<lparr>application = plugin, allowedCaller = sender (txn e)\<rparr> = Some v \<and>
                 v \<le> latestTimestamp e))"
  then show no: "arc58_rekeyToPlugin e st plugin = Inl NotAuthorized"
    by (auto simp: arc58_rekeyToPlugin_def Let_def split: option.splits)
  then show "stateAfter st (arc58_rekeyToPlugin e st plugin) = st"
    by (simp add: stateAfter_def)
qed

theorem arc58_rekeyToPlugin_precedence_witness:
  "arc58_rekeyToPlugin (ex_env 5 150 [ex_verifyCall]) ex_state 7 =
     Inr (ex_state\<lparr>ledgerAuthAddr := (ledgerAuthAddr ex_state)(20 := 1007)\<rparr>) \<and>
   arc58_rekeyToPlugin (ex_env 6 50 [ex_verifyCall]) ex_state 7 =
     Inr (ex_state\<lparr>ledgerAuthAddr := (ledgerAuthAddr ex_state)(20 := 1007)\<rparr>) \<and>
   arc58_rekeyToPlugin (ex_env 6 150 [ex_verifyCall]) ex_state 7 = Inl NotAuthorized"
proof -
  have x: "appExists (ex_env c t [ex_verifyCall]) 7" for c t
    by (simp add: ex_env_def ex_appExists_def)
  have c: "controlHolder ex_state (controlledAddress ex_state) =
      appAddress (ex_env c t [ex_verifyCall]) (app (ex_env c t [ex_verifyCall]))" for c t
    by (simp add: controlHolder_def ex_state_def ex_env_def ex_appAddress_def zeroAddress_def)
  have v: "verifyRekeyToAbstractedAccount (ex_env c t [ex_verifyCall]) ex_state = Inr ()" for c t
    by (simp add: verifyRekeyToAbstractedAccount_def getAuthAddr_def ex_env_def ex_state_def
        ex_call_def ex_verifyCall_def ex_appAddress_def ex_selector_def zeroAddress_def)
  note spec = arc58_rekeyToPlugin_precedence [OF x c v]
  have scoped: "arc58_rekeyToPlugin (ex_env 5 150 [ex_verifyCall]) ex_state 7 =
     Inr (ex_state\<lparr>ledgerAuthAddr := (ledgerAuthAddr ex_state)(20 := 1007)\<rparr>)"
    using spec [of 5 150, THEN conjunct2, THEN conjunct1]
    by (simp add: ex_env_def ex_state_def ex_call_def ex_appAddress_def zeroAddress_def)
  have wildcard: "arc58_rekeyToPlugin (ex_env 6 50 [ex_verifyCall]) ex_state 7 =
     Inr (ex_state\<lparr>ledgerAuthAddr := (ledgerAuthAddr ex_state)(20 := 1007)\<rparr>)"
    using spec [of 6 50, THEN conjunct1]
    by (simp add: ex_env_def ex_state_def ex_call_def ex_appAddress_def zeroAddress_def)
  have refused: "arc58_rekeyToPlugin (ex_env 6 150 [ex_verifyCall]) ex_state 7 = Inl NotAuthorized"
    using spec [of 6 150, THEN conjunct2, THEN conjunct2]
    by (simp add: ex_env_def ex_state_def ex_call_def zeroAddress_def)
  show ?thesis
    using scoped wildcard refused by simp
qed

text \<open>
  Claim C10. \<open>arc58_rekeyToNamedPlugin\<close> on a name without a box fails at the read of the box,
  and the state (the boxes, the global state and the auth addresses) stays as it was.
\<close>

theorem arc58_rekeyToNamedPlugin_absent:
  assumes "namedPlugins st name = None"
  shows "arc58_rekeyToNamedPlugin e st name = Inl NotFound \<and>
         stateAfter st (arc58_rekeyToNamedPlugin e st name) = st"
  using assms by (simp add: arc58_rekeyToNamedPlugin_def stateAfter_def)

theorem arc58_rekeyToNamedPlugin_absent_witness:
  "arc58_rekeyToNamedPlugin (ex_env 5 150 [ex_verifyCall]) ex_state ''lend'' = Inl NotFound \<and>
   stateAfter ex_state (arc58_rekeyToNamedPlugin (ex_env 5 150 [ex_verifyCall]) ex_state ''lend'') =
     ex_state"
proof -
  have n: "namedPlugins ex_state ''lend'' = None"
    by (simp add: ex_state_def)
  show ?thesis
    using arc58_rekeyToNamedPlugin_absent [OF n] .
qed

subsection \<open>Direct rekey\<close>

text \<open>
  Claim C8. \<open>arc58_rekeyTo\<close> fails with \<open>Unauthorized\<close> for a caller other than the admin; when
  it succeeds the caller is the admin and the auth address of the controlled address is the
  target; the flash call succeeds exactly when the non-flash call does and the verifier
  accepts the group, and fails with \<open>InvariantViolation\<close> when the verifier rejects it; the
  non-flash call does not depend on the group, and succeeds for the admin whenever the
  application controls the account.
\<close>

theorem arc58_rekeyTo_admin_flash:
  "(sender (txn e) \<noteq> admin st \<longrightarrow> arc58_rekeyTo e st target flash = Inl Unauthorized)
   \<and> (arc58_rekeyTo e st target flash = Inr st' \<longrightarrow>
        sender (txn e) = admin st \<and>
        st' = st\<lparr>ledgerAuthAddr := (ledgerAuthAddr st)(controlledAddress st := target)\<rparr> \<and>
        ledgerAuthAddr st' (controlledAddress st') = target)
   \<and> (typeEnum (txn e) = Appl \<and> sender (txn e) = admin st \<and>
      controlHolder st (controlledAddress st) = appAddress e (app e) \<longrightarrow>
        arc58_rekeyTo e st target False =
          Inr (st\<lparr>ledgerAuthAddr := (ledgerAuthAddr st)(controlledAddress st := target)\<rparr>) \<and>
        arc58_rekeyTo e st target True =
          (case verifyRekeyToAbstractedAccount e st of
             Inl err \<Rightarrow> Inl err
           | Inr _ \<Rightarrow> Inr (st\<lparr>ledgerAuthAddr := (ledgerAuthAddr st)(controlledAddress st := target)\<rparr>)))
   \<and> (arc58_rekeyTo e st target True = Inr st' \<longleftrightarrow>
        arc58_rekeyTo e st target False = Inr st' \<and> verifyRekeyToAbstractedAccount e st = Inr ())
   \<and> (txnGroup e \<noteq> [] \<and> arc58_rekeyTo e st target False = Inr st' \<and>
      verifyRekeyToAbstractedAccount e st \<noteq> Inr () \<longrightarrow>
        arc58_rekeyTo e st target True = Inl InvariantViolation)
   \<and> arc58_rekeyTo (e\<lparr>txnGroup := g\<rparr>) st target False = arc58_rekeyTo e st target False"
proof (intro conjI impI)
  assume "sender (txn e) \<noteq> admin st"
  then show "arc58_rekeyTo e st target flash = Inl Unauthorized"
    by (simp add: arc58_rekeyTo_def)
next
  assume ok: "arc58_rekeyTo e st target flash = Inr st'"
  then show "sender (txn e) = admin st"
    by (simp add: arc58_rekeyTo_def split: if_splits)
  from ok show st': "st' = st\<lparr>ledgerAuthAddr := (ledgerAuthAddr st)(controlledAddress st := target)\<rparr>"
    by (auto simp: arc58_rekeyTo_def dest!: sendPayment_Inr split: if_splits sum.splits)
  then show "ledgerAuthAddr st' (controlledAddress st') = target"
    by simp
next
  assume h: "typeEnum (txn e) = Appl \<and> sender (txn e) = admin st \<and>
      controlHolder st (controlledAddress st) = appAddress e (app e)"
  then show "arc58_rekeyTo e st target False =
          Inr (st\<lparr>ledgerAuthAddr := (ledgerAuthAddr st)(controlledAddress st := target)\<rparr>)"
    by (simp add: arc58_rekeyTo_def sendPayment_ok)
  from h show "arc58_rekeyTo e st target True =
          (case verifyRekeyToAbstractedAccount e st of
             Inl err \<Rightarrow> Inl err
           | Inr _ \<Rightarrow> Inr (st\<lparr>ledgerAuthAddr := (ledgerAuthAddr st)(controlledAddress st := target)\<rparr>))"
    by (simp add: arc58_rekeyTo_def sendPayment_ok verifyRekeyToAbstractedAccount_ledger)
next
  show "arc58_rekeyTo e st target True = Inr st' \<longleftrightarrow>
        arc58_rekeyTo e st target False = Inr st' \<and> verifyRekeyToAbstractedAccount e st = Inr ()"
    by (auto simp: arc58_rekeyTo_def verifyRekeyToAbstractedAccount_ledger
        dest!: sendPayment_Inr split: if_splits sum.splits)
next
  assume h: "txnGroup e \<noteq> [] \<and> arc58_rekeyTo e st target False = Inr st' \<and>
      verifyRekeyToAbstractedAccount e st \<noteq> Inr ()"
  then have "verifyRekeyToAbstractedAccount e st = Inl InvariantViolation"
    using verifyRekeyToAbstractedAccount_cases [of e st] by blast
  with h show "arc58_rekeyTo e st target True = Inl InvariantViolation"
    by (auto simp: arc58_rekeyTo_def verifyRekeyToAbstractedAccount_ledger
        dest!: sendPayment_Inr split: if_splits sum.splits)
next
  show "arc58_rekeyTo (e\<lparr>txnGroup := g\<rparr>) st target False = arc58_rekeyTo e st target False"
    by (simp add: arc58_rekeyTo_def sendPayment_def)
qed

theorem arc58_rekeyTo_admin_flash_witness:
  "arc58_rekeyTo (ex_env 5 150 []) ex_state 77 False = Inl Unauthorized \<and>
   arc58_rekeyTo (ex_env 10 150 []) ex_state 77 False =
     Inr (ex_state\<lparr>ledgerAuthAddr := (ledgerAuthAddr ex_state)(20 := 77)\<rparr>) \<and>
   arc58_rekeyTo (ex_env 10 150 []) ex_state 77 True = Inl InvariantViolation \<and>
   arc58_rekeyTo (ex_env 10 150 [ex_verifyCall]) ex_state 77 True =
     Inr (ex_state\<lparr>ledgerAuthAddr := (ledgerAuthAddr ex_state)(20 := 77)\<rparr>)"
proof -
  have other: "sender (txn (ex_env 5 150 [])) \<noteq> admin ex_state"
    by (simp add: ex_env_def ex_state_def ex_call_def)
  have pre: "typeEnum (txn (ex_env 10 150 g)) = Appl \<and>
      sender (txn (ex_env 10 150 g)) = admin ex_state \<and>
      controlHolder ex_state (controlledAddress ex_state) =
        appAddress (ex_env 10 150 g) (app (ex_env 10 150 g))" for g
    by (simp add: controlHolder_def ex_env_def ex_state_def ex_call_def ex_appAddress_def
        zeroAddress_def)
  have c: "controlledAddress ex_state = 20"
    by (simp add: ex_state_def)
  have bad: "verifyRekeyToAbstractedAccount (ex_env 10 150 []) ex_state = Inl InvariantViolation"
    by (simp add: verifyRekeyToAbstractedAccount_def getAuthAddr_def ex_env_def ex_state_def
        ex_call_def ex_appAddress_def zeroAddress_def)
  have good: "verifyRekeyToAbstractedAccount (ex_env 10 150 [ex_verifyCall]) ex_state = Inr ()"
    by (simp add: verifyRekeyToAbstractedAccount_def getAuthAddr_def ex_env_def ex_state_def
        ex_call_def ex_verifyCall_def ex_appAddress_def ex_selector_def zeroAddress_def)
  note run = arc58_rekeyTo_admin_flash [THEN conjunct2, THEN conjunct2, THEN conjunct1, rule_format]
  show ?thesis
    using arc58_rekeyTo_admin_flash [THEN conjunct1, rule_format, OF other, of 77 False]
      run [OF pre, of "[]" 77] run [OF pre, of "[ex_verifyCall]" 77]
    by (simp add: c bad good)
qed

subsection \<open>Named plugins\<close>

text \<open>
  Claim C6. After a successful \<open>arc58_addNamedPlugin\<close> for a name, every further
  \<open>arc58_addNamedPlugin\<close> for that name fails, whatever its other arguments are: with
  \<open>AliasExists\<close> when the admin calls (any other caller is stopped earlier, as
  \<open>Unauthorized\<close>), and both box maps stay as they were.
\<close>

theorem arc58_addNamedPlugin_twice:
  assumes "arc58_addNamedPlugin e st name a caller end_ts = Inr st'"
  shows "(sender (txn e') = admin st' \<longrightarrow>
            arc58_addNamedPlugin e' st' name a' caller' end_ts' = Inl AliasExists)
       \<and> isl (arc58_addNamedPlugin e' st' name a' caller' end_ts')
       \<and> namedPlugins (stateAfter st' (arc58_addNamedPlugin e' st' name a' caller' end_ts')) =
           namedPlugins st'
       \<and> plugins (stateAfter st' (arc58_addNamedPlugin e' st' name a' caller' end_ts')) =
           plugins st'"
proof -
  from assms have present: "namedPlugins st' name = Some \<lparr>application = a, allowedCaller = caller\<rparr>"
    by (auto simp: arc58_addNamedPlugin_def Let_def split: if_splits option.splits)
  then show ?thesis
    by (simp add: arc58_addNamedPlugin_def stateAfter_def)
qed

theorem arc58_addNamedPlugin_twice_witness:
  "arc58_addNamedPlugin (ex_env 10 150 []) ex_state ''lend'' 8 0 300 =
     Inr (ex_state\<lparr>namedPlugins := (namedPlugins ex_state)(''lend'' \<mapsto> \<lparr>application = 8, allowedCaller = 0\<rparr>),
                   plugins := (plugins ex_state)(\<lparr>application = 8, allowedCaller = 0\<rparr> \<mapsto> 300)\<rparr>) \<and>
   arc58_addNamedPlugin (ex_env 10 160 [])
     (ex_state\<lparr>namedPlugins := (namedPlugins ex_state)(''lend'' \<mapsto> \<lparr>application = 8, allowedCaller = 0\<rparr>),
               plugins := (plugins ex_state)(\<lparr>application = 8, allowedCaller = 0\<rparr> \<mapsto> 300)\<rparr>)
     ''lend'' 9 5 400 = Inl AliasExists"
proof -
  have first: "arc58_addNamedPlugin (ex_env 10 150 []) ex_state ''lend'' 8 0 300 =
     Inr (ex_state\<lparr>namedPlugins := (namedPlugins ex_state)(''lend'' \<mapsto> \<lparr>application = 8, allowedCaller = 0\<rparr>),
                   plugins := (plugins ex_state)(\<lparr>application = 8, allowedCaller = 0\<rparr> \<mapsto> 300)\<rparr>)"
    by (simp add: arc58_addNamedPlugin_def Let_def ex_env_def ex_state_def ex_call_def)
  show ?thesis
    using first arc58_addNamedPlugin_twice [OF first, of "ex_env 10 160 []" 9 5 400]
    by (simp add: ex_env_def ex_state_def ex_call_def)
qed

text \<open>
  \<open>arc58_removeNamedPlugin\<close> never succeeds: when the key of the name is read, the box of the
  name has just been deleted.
\<close>

lemma arc58_removeNamedPlugin_never_succeeds:
  "arc58_removeNamedPlugin e st name =
     Inl (if sender (txn e) = admin st then NotFound else Unauthorized)"
  by (simp add: arc58_removeNamedPlugin_def)

text \<open>
  Claim C7 says that \<open>arc58_removeNamedPlugin\<close> on a name that has a box removes the box of the
  name and the plugin box under the key the name held. In the scenario admin 10 removes the
  name \<open>swap\<close>, which holds the key of plugin 7 for caller 5: the call aborts, and afterwards
  the name still has its box and the plugin box is still there.
\<close>

theorem arc58_removeNamedPlugin_aborts:
  "sender (txn (ex_env 10 150 [])) = admin ex_state \<and>
   namedPlugins ex_state ''swap'' = Some \<lparr>application = 7, allowedCaller = 5\<rparr> \<and>
   arc58_removeNamedPlugin (ex_env 10 150 []) ex_state ''swap'' = Inl NotFound \<and>
   namedPlugins (stateAfter ex_state (arc58_removeNamedPlugin (ex_env 10 150 []) ex_state ''swap''))
     ''swap'' = Some \<lparr>application = 7, allowedCaller = 5\<rparr> \<and>
   plugins (stateAfter ex_state (arc58_removeNamedPlugin (ex_env 10 150 []) ex_state ''swap''))
     \<lparr>application = 7, allowedCaller = 5\<rparr> = Some 200"
  by (simp add: arc58_removeNamedPlugin_def stateAfter_def ex_env_def ex_state_def ex_call_def)

subsection \<open>Admin and controlled address\<close>

text \<open>
  Creation with the same identity as controlled address and as admin fails in both
  variants, and \<open>arc58_changeAdmin\<close> to the controlled address fails.
\<close>

lemma createApplication_same_identity:
  "createApplication e st a a =
     Inl (if typeEnum (txn e) = Appl \<and> sender (txn e) = a then InvalidAdmin else Unauthorized)"
  by (simp add: createApplication_def)

lemma createApplication2_same_identity:
  "createApplication2 e st a a =
     Inl (if typeEnum (txn e) = Appl \<and> sender (txn e) = a then InvalidAdmin else Unauthorized)"
  by (simp add: createApplication2_def)

lemma arc58_changeAdmin_controlledAddress:
  "arc58_changeAdmin e st (controlledAddress st) =
     Inl (if sender (txn e) = admin st then InvalidAdmin else Unauthorized)"
  by (simp add: arc58_changeAdmin_def)

lemma changeAdmin_address2:
  "sender (txn e) = admin2 st \<Longrightarrow>
   changeAdmin e st (address2 st) = Inr (st\<lparr>admin2 := address2 st\<rparr>)"
  by (simp add: changeAdmin_def)

text \<open>
  Claim C4 says that in both variants \<open>changeAdmin\<close> to the address of the managed account
  fails with \<open>InvalidAdmin\<close>. \<open>changeAdmin\<close> of the factory variant has no such check: called
  by admin 10 with the managed address 20 it succeeds, and the admin is the managed address
  afterwards.
\<close>

theorem changeAdmin_accepts_managed_address:
  "changeAdmin (ex_env 10 150 []) ex_state2 (address2 ex_state2) =
     Inr (ex_state2\<lparr>admin2 := 20\<rparr>) \<and>
   admin2 (stateAfter ex_state2 (changeAdmin (ex_env 10 150 []) ex_state2 (address2 ex_state2))) =
     address2 ex_state2"
  by (simp add: changeAdmin_def stateAfter_def ex_env_def ex_state2_def ex_call_def)

text \<open>
  Claim C9. In both variants creation succeeds only when the sender is one of the two
  identities supplied, and fails with \<open>Unauthorized\<close> for any third sender.
\<close>

theorem createApplication_sender:
  "(createApplication e st a adm = Inr st' \<longrightarrow> sender (txn e) = a \<or> sender (txn e) = adm)
   \<and> (sender (txn e) \<noteq> a \<and> sender (txn e) \<noteq> adm \<longrightarrow>
        createApplication e st a adm = Inl Unauthorized)
   \<and> (createApplication2 e st2 a adm = Inr st2' \<longrightarrow> sender (txn e) = a \<or> sender (txn e) = adm)
   \<and> (sender (txn e) \<noteq> a \<and> sender (txn e) \<noteq> adm \<longrightarrow>
        createApplication2 e st2 a adm = Inl Unauthorized)"
  by (auto simp: createApplication_def createApplication2_def split: if_splits)

theorem createApplication_sender_witness:
  "createApplication (ex_env 30 150 []) ex_state 20 10 = Inl Unauthorized \<and>
   createApplication2 (ex_env 30 150 []) ex_state2 20 10 = Inl Unauthorized \<and>
   createApplication (ex_env 10 150 []) ex_state 20 10 = Inr ex_state \<and>
   createApplication2 (ex_env 20 150 []) ex_state2 20 10 = Inr ex_state2"
  using createApplication_sender [of "ex_env 30 150 []" ex_state 20 10 ex_state ex_state2 ex_state2]
    createApplication_sender [of "ex_env 10 150 []" ex_state 20 10 ex_state ex_state2 ex_state2]
  by (simp add: createApplication_def createApplication2_def ex_env_def ex_state_def
      ex_state2_def ex_call_def ex_appAddress_def zeroAddress_def)

end
